theory Spec2Isabelle
  imports Complex_Main
begin

section \<open>Vectors, quaternions and matrices of the host's math library\<close>

text \<open>
  The source works on \<^verbatim>\<open>mathutils\<close> values: 3-vectors, quaternions and 4x4 matrices of
  floats. They are modelled over the reals, so every statement below is about exact
  arithmetic; rounding is outside the model.
\<close>

datatype vec3 = Vec3 (vx: real) (vy: real) (vz: real)


datatype mat4 = Mat4
  (m00: real) (m01: real) (m02: real) (m03: real)
  (m10: real) (m11: real) (m12: real) (m13: real)
  (m20: real) (m21: real) (m22: real) (m23: real)
  (m30: real) (m31: real) (m32: real) (m33: real)

datatype error = ValueError | TypeError | KeyError

definition vadd :: "vec3 \<Rightarrow> vec3 \<Rightarrow> vec3" where
  "vadd u v = Vec3 (vx u + vx v) (vy u + vy v) (vz u + vz v)"

definition vsub :: "vec3 \<Rightarrow> vec3 \<Rightarrow> vec3" where
  "vsub u v = Vec3 (vx u - vx v) (vy u - vy v) (vz u - vz v)"

definition vscale :: "vec3 \<Rightarrow> real \<Rightarrow> vec3" where
  "vscale v k = Vec3 (vx v * k) (vy v * k) (vz v * k)"

definition vdiv :: "vec3 \<Rightarrow> real \<Rightarrow> vec3" where
  "vdiv v k = Vec3 (vx v / k) (vy v / k) (vz v / k)"

definition vdot :: "vec3 \<Rightarrow> vec3 \<Rightarrow> real" where
  "vdot u v = vx u * vx v + vy u * vy v + vz u * vz v"

definition cross :: "vec3 \<Rightarrow> vec3 \<Rightarrow> vec3" where
  "cross u v = Vec3 (vy u * vz v - vz u * vy v)
                    (vz u * vx v - vx u * vz v)
                    (vx u * vy v - vy u * vx v)"

definition vlength :: "vec3 \<Rightarrow> real" where
  "vlength v = sqrt (vx v * vx v + vy v * vy v + vz v * vz v)"

text \<open>\<^verbatim>\<open>Vector.normalized()\<close>: the unit vector, and the zero vector for the zero vector.\<close>

definition normalized :: "vec3 \<Rightarrow> vec3" where
  "normalized v = (if vlength v = 0 then Vec3 0 0 0 else vdiv v (vlength v))"



text \<open>\<^verbatim>\<open>Matrix()\<close> is the 4x4 identity.\<close>

definition Matrix :: mat4 where
  "Matrix = Mat4 1 0 0 0  0 1 0 0  0 0 1 0  0 0 0 1"

fun mat_mul :: "mat4 \<Rightarrow> mat4 \<Rightarrow> mat4" where
  "mat_mul (Mat4 a00 a01 a02 a03 a10 a11 a12 a13 a20 a21 a22 a23 a30 a31 a32 a33)
           (Mat4 b00 b01 b02 b03 b10 b11 b12 b13 b20 b21 b22 b23 b30 b31 b32 b33) =
     Mat4 (a00*b00 + a01*b10 + a02*b20 + a03*b30) (a00*b01 + a01*b11 + a02*b21 + a03*b31)
          (a00*b02 + a01*b12 + a02*b22 + a03*b32) (a00*b03 + a01*b13 + a02*b23 + a03*b33)
          (a10*b00 + a11*b10 + a12*b20 + a13*b30) (a10*b01 + a11*b11 + a12*b21 + a13*b31)
          (a10*b02 + a11*b12 + a12*b22 + a13*b32) (a10*b03 + a11*b13 + a12*b23 + a13*b33)
          (a20*b00 + a21*b10 + a22*b20 + a23*b30) (a20*b01 + a21*b11 + a22*b21 + a23*b31)
          (a20*b02 + a21*b12 + a22*b22 + a23*b32) (a20*b03 + a21*b13 + a22*b23 + a23*b33)
          (a30*b00 + a31*b10 + a32*b20 + a33*b30) (a30*b01 + a31*b11 + a32*b21 + a33*b31)
          (a30*b02 + a31*b12 + a32*b22 + a33*b32) (a30*b03 + a31*b13 + a32*b23 + a33*b33)"

fun mat_scale :: "real \<Rightarrow> mat4 \<Rightarrow> mat4" where
  "mat_scale k (Mat4 a00 a01 a02 a03 a10 a11 a12 a13 a20 a21 a22 a23 a30 a31 a32 a33) =
     Mat4 (k*a00) (k*a01) (k*a02) (k*a03) (k*a10) (k*a11) (k*a12) (k*a13)
          (k*a20) (k*a21) (k*a22) (k*a23) (k*a30) (k*a31) (k*a32) (k*a33)"

fun determinant :: "mat4 \<Rightarrow> real" where
  "determinant (Mat4 a00 a01 a02 a03 a10 a11 a12 a13 a20 a21 a22 a23 a30 a31 a32 a33) =
     (a00*a11 - a10*a01) * (a22*a33 - a32*a23) - (a00*a12 - a10*a02) * (a21*a33 - a31*a23)
   + (a00*a13 - a10*a03) * (a21*a32 - a31*a22) + (a01*a12 - a11*a02) * (a20*a33 - a30*a23)
   - (a01*a13 - a11*a03) * (a20*a32 - a30*a22) + (a02*a13 - a12*a03) * (a20*a31 - a30*a21)"

fun adjugate :: "mat4 \<Rightarrow> mat4" where
  "adjugate (Mat4 a00 a01 a02 a03 a10 a11 a12 a13 a20 a21 a22 a23 a30 a31 a32 a33) =
     (let s0 = a00*a11 - a10*a01; s1 = a00*a12 - a10*a02; s2 = a00*a13 - a10*a03;
          s3 = a01*a12 - a11*a02; s4 = a01*a13 - a11*a03; s5 = a02*a13 - a12*a03;
          c5 = a22*a33 - a32*a23; c4 = a21*a33 - a31*a23; c3 = a21*a32 - a31*a22;
          c2 = a20*a33 - a30*a23; c1 = a20*a32 - a30*a22; c0 = a20*a31 - a30*a21
      in Mat4 (a11*c5 - a12*c4 + a13*c3) (- a01*c5 + a02*c4 - a03*c3)
              (a31*s5 - a32*s4 + a33*s3) (- a21*s5 + a22*s4 - a23*s3)
              (- a10*c5 + a12*c2 - a13*c1) (a00*c5 - a02*c2 + a03*c1)
              (- a30*s5 + a32*s2 - a33*s1) (a20*s5 - a22*s2 + a23*s1)
              (a10*c4 - a11*c2 + a13*c0) (- a00*c4 + a01*c2 - a03*c0)
              (a30*s4 - a31*s2 + a33*s0) (- a20*s4 + a21*s2 - a23*s0)
              (- a10*c3 + a11*c1 - a12*c0) (a00*c3 - a01*c1 + a02*c0)
              (- a30*s3 + a31*s1 - a32*s0) (a20*s3 - a21*s1 + a22*s0))"

text \<open>
  \<^verbatim>\<open>Matrix.inverted()\<close> raises \<^verbatim>\<open>ValueError\<close> on a matrix that has no inverse;
  otherwise it is the adjugate over the determinant.
\<close>

definition inverted :: "mat4 \<Rightarrow> error + mat4" where
  "inverted m = (if determinant m = 0 then Inl ValueError
                 else Inr (mat_scale (1 / determinant m) (adjugate m)))"

text \<open>\<^verbatim>\<open>Matrix.Translation(v)\<close> and \<^verbatim>\<open>m.to_translation()\<close>.\<close>

definition Translation :: "vec3 \<Rightarrow> mat4" where
  "Translation v = Mat4 1 0 0 (vx v)  0 1 0 (vy v)  0 0 1 (vz v)  0 0 0 1"

definition to_translation :: "mat4 \<Rightarrow> vec3" where
  "to_translation m = Vec3 (m03 m) (m13 m) (m23 m)"



section \<open>Pose bones\<close>

text \<open>
  The host's \<^verbatim>\<open>rotation_mode\<close> enumeration, and the part of a pose bone the
  functions below read or write. \<^verbatim>\<open>matrix\<close> is the armature-space pose matrix,
  \<^verbatim>\<open>matrix_local\<close> the rest matrix (\<^verbatim>\<open>pose_bone.bone.matrix_local\<close>),
  \<^verbatim>\<open>vector\<close> the head-to-tail vector, \<^verbatim>\<open>props\<close> the custom properties
  (\<^verbatim>\<open>pose_bone[key]\<close>). The parent is the same bone whether it is reached as
  \<^verbatim>\<open>pose_bone.parent\<close> or as \<^verbatim>\<open>pose_bone.bone.parent\<close>; only its pose matrix and its
  rest matrix are read.
\<close>

datatype rot_mode = QUATERNION | AXIS_ANGLE | XYZ | XZY | YXZ | YZX | ZXY | ZYX

record parent_bone =
  parent_matrix :: mat4
  parent_matrix_local :: mat4

record pose_bone =
  rotation_mode :: rot_mode
  rotation_axis_angle :: "real \<times> real \<times> real \<times> real"
  location :: vec3
  matrix :: mat4
  vector :: vec3
  matrix_local :: mat4
  use_local_location :: bool
  parent :: "parent_bone option"
  props :: "string \<rightharpoonup> real"

text \<open>\<^verbatim>\<open>bone.rotation_axis_angle[0] = angle\<close>\<close>

definition set_angle :: "real \<Rightarrow> real \<times> real \<times> real \<times> real \<Rightarrow> real \<times> real \<times> real \<times> real" where
  "set_angle angle aa = (angle, snd aa)"

section \<open>Math utility functions\<close>

definition perpendicular_vector :: "vec3 \<Rightarrow> vec3" where
  "perpendicular_vector v =
     (let tv = (if \<bar>vx v\<bar> < \<bar>vy v\<bar> then Vec3 1 0 0 else Vec3 0 1 0)
      in cross v tv)"


text \<open>
  \<^verbatim>\<open>bpy.context.scene.update()\<close> followed by reading \<^verbatim>\<open>.tail\<close> is the host's evaluation
  of a bone's tail position from the bone's current values: the parameter \<open>tail\<close>.
  The function mutates \<^verbatim>\<open>bone_ik\<close>; the model returns the distance and the updated bone.
\<close>

definition tail_distance ::
  "(pose_bone \<Rightarrow> vec3) \<Rightarrow> real \<Rightarrow> pose_bone \<Rightarrow> pose_bone \<Rightarrow> real \<times> pose_bone" where
  "tail_distance tail angle bone_ik bone_fk =
     (let rot_mod = rotation_mode bone_ik;
          b1 = (if rot_mod \<noteq> AXIS_ANGLE then bone_ik\<lparr>rotation_mode := AXIS_ANGLE\<rparr> else bone_ik);
          b2 = b1\<lparr>rotation_axis_angle := set_angle angle (rotation_axis_angle b1)\<rparr>;
          dv = vlength (vsub (tail bone_fk) (tail b2));
          b3 = b2\<lparr>rotation_mode := rot_mod\<rparr>
      in (dv, b3))"

text \<open>
  The \<^verbatim>\<open>while\<close> loop of \<^verbatim>\<open>find_min_range\<close>. \<open>None\<close> is a loop that never ends;
  \<open>Some (None, b)\<close> is the loop left with its condition false, where the Python function
  falls off its end and returns \<^verbatim>\<open>None\<close>.
\<close>

partial_function (option) find_min_loop ::
  "(real \<Rightarrow> pose_bone \<Rightarrow> pose_bone \<Rightarrow> real \<times> pose_bone) \<Rightarrow> real \<Rightarrow> rot_mode \<Rightarrow> real \<Rightarrow> real
     \<Rightarrow> pose_bone \<Rightarrow> pose_bone \<Rightarrow> ((real \<times> real) option \<times> pose_bone) option" where
  "find_min_loop f delta rot_mod start_angle angle bone_ik bone_fk =
     (if angle > start_angle - 2 * pi \<and> angle < start_angle + 2 * pi then
        (let l = f (angle - delta) bone_ik bone_fk;
             c = f angle (snd l) bone_fk;
             r = f (angle + delta) (snd c) bone_fk
         in if min (min (fst l) (fst c)) (fst r) = fst c
            then Some (Some (angle - delta, angle + delta), (snd r)\<lparr>rotation_mode := rot_mod\<rparr>)
            else find_min_loop f delta rot_mod start_angle (angle + delta) (snd r) bone_fk)
      else Some (None, bone_ik))"

definition find_min_range ::
  "(real \<Rightarrow> pose_bone \<Rightarrow> pose_bone \<Rightarrow> real \<times> pose_bone) \<Rightarrow> real \<Rightarrow> pose_bone \<Rightarrow> pose_bone
     \<Rightarrow> ((real \<times> real) option \<times> pose_bone) option" where
  "find_min_range f delta bone_ik bone_fk =
     (let rot_mod = rotation_mode bone_ik;
          b1 = (if rot_mod \<noteq> AXIS_ANGLE then bone_ik\<lparr>rotation_mode := AXIS_ANGLE\<rparr> else bone_ik);
          start_angle = fst (rotation_axis_angle b1)
      in find_min_loop f delta rot_mod start_angle start_angle b1 bone_fk)"

partial_function (option) ternarySearch ::
  "(real \<Rightarrow> pose_bone \<Rightarrow> pose_bone \<Rightarrow> real \<times> pose_bone) \<Rightarrow> real \<Rightarrow> real \<Rightarrow> pose_bone \<Rightarrow> pose_bone
     \<Rightarrow> real \<Rightarrow> (real \<times> pose_bone) option" where
  "ternarySearch f left right bone_ik bone_fk absolutePrecision =
     (if \<bar>right - left\<bar> < absolutePrecision then Some ((left + right) / 2, bone_ik)
      else
        (let leftThird = left + (right - left) / 3;
             rightThird = right - (right - left) / 3;
             fl = f leftThird bone_ik bone_fk;
             fr = f rightThird (snd fl) bone_fk
         in if fst fl > fst fr
            then ternarySearch f leftThird right (snd fr) bone_fk absolutePrecision
            else ternarySearch f left rightThird (snd fr) bone_fk absolutePrecision))"

section \<open>"Visual Transform" helper functions\<close>

definition get_pose_matrix_in_other_space :: "mat4 \<Rightarrow> pose_bone \<Rightarrow> error + mat4" where
  "get_pose_matrix_in_other_space mat pose_bone =
     (let rest = matrix_local pose_bone
      in case inverted rest of
           Inl e \<Rightarrow> Inl e
         | Inr rest_inv \<Rightarrow>
             (case parent pose_bone of
                Some p \<Rightarrow>
                  (let par_mat = parent_matrix p
                   in case inverted par_mat of
                        Inl e \<Rightarrow> Inl e
                      | Inr par_inv \<Rightarrow>
                          (let par_rest = parent_matrix_local p
                           in Inr (mat_mul rest_inv (mat_mul par_rest (mat_mul par_inv mat)))))
              | None \<Rightarrow>
                  (let par_inv = Matrix; par_rest = Matrix
                   in Inr (mat_mul rest_inv (mat_mul par_rest (mat_mul par_inv mat))))))"



section \<open>IK/FK snapping functions\<close>

text \<open>
  The four bones \<^verbatim>\<open>match_pole_target\<close> is given. \<^verbatim>\<open>bpy.ops.object.mode_set\<close> makes the
  host evaluate the pose again: the parameter \<open>mode_set\<close>, from the mode's name and the rig
  to the rig.
\<close>

record pole_rig =
  ik_first :: pose_bone
  ik_last :: pose_bone
  pole :: pose_bone
  match_bone :: pose_bone

text \<open>\<^verbatim>\<open>ikv\<close>, \<^verbatim>\<open>pv\<close> and the \<^verbatim>\<open>ploc\<close> of the inner function \<^verbatim>\<open>set_pole\<close>.\<close>

definition chain_vector :: "pole_rig \<Rightarrow> vec3" where
  "chain_vector rig =
     (let a = to_translation (matrix (ik_first rig));
          b = vadd (to_translation (matrix (ik_last rig))) (vector (ik_last rig))
      in vsub b a)"

definition pole_vector :: "vec3 \<Rightarrow> real \<Rightarrow> vec3" where
  "pole_vector ikv length' = vscale (normalized (perpendicular_vector ikv)) length'"

definition pole_location :: "vec3 \<Rightarrow> vec3 \<Rightarrow> vec3 \<Rightarrow> vec3" where
  "pole_location a ikv pvi = vadd (vadd a (vdiv ikv 2)) pvi"



text \<open>
  The "Stretch" step that opens the pole branch of \<^verbatim>\<open>ik2fk_leg\<close>:
  \<^verbatim>\<open>if 'stretch_lenght' in footi.keys() and 'stretch_lenght' in thigh.keys():
      footi['stretch_length'] = thigh['stretch_length']\<close>
  Reading a key that is absent raises \<^verbatim>\<open>KeyError\<close>.
\<close>

definition ik2fk_leg_stretch :: "pose_bone \<Rightarrow> pose_bone \<Rightarrow> error + pose_bone" where
  "ik2fk_leg_stretch footi thigh =
     (if props footi ''stretch_lenght'' \<noteq> None \<and> props thigh ''stretch_lenght'' \<noteq> None
      then (case props thigh ''stretch_length'' of
              None \<Rightarrow> Inl KeyError
            | Some v \<Rightarrow> Inr (footi\<lparr>props := (props footi)(''stretch_length'' \<mapsto> v)\<rparr>))
      else Inr footi)"

section \<open>The space conversion as the specification words it\<close>

text \<open>
  These definitions follow the specification's words, not the source, and are what the
  source function is compared with: the specification's formula for the conversion into a
  bone's space, and its conversion back to world space
  (\<open>parentPose * parentRest^-1 * rest * localMatrix\<close>), which the source does not have.
  Parent pose and parent rest are the identity for a bone without a parent.
\<close>

definition spec_parent_pose :: "pose_bone \<Rightarrow> mat4" where
  "spec_parent_pose b = (case parent b of None \<Rightarrow> Matrix | Some p \<Rightarrow> parent_matrix p)"

definition spec_parent_rest :: "pose_bone \<Rightarrow> mat4" where
  "spec_parent_rest b = (case parent b of None \<Rightarrow> Matrix | Some p \<Rightarrow> parent_matrix_local p)"

definition spec_convert_to_local :: "mat4 \<Rightarrow> pose_bone \<Rightarrow> error + mat4" where
  "spec_convert_to_local worldMatrix b =
     (case inverted (matrix_local b) of
        Inl e \<Rightarrow> Inl e
      | Inr restInverse \<Rightarrow>
          (case inverted (spec_parent_pose b) of
             Inl e \<Rightarrow> Inl e
           | Inr parentPoseInverse \<Rightarrow>
               Inr (mat_mul restInverse
                     (mat_mul (spec_parent_rest b) (mat_mul parentPoseInverse worldMatrix)))))"

definition spec_convert_to_world :: "mat4 \<Rightarrow> pose_bone \<Rightarrow> error + mat4" where
  "spec_convert_to_world localMatrix b =
     (case inverted (spec_parent_rest b) of
        Inl e \<Rightarrow> Inl e
      | Inr parentRestInverse \<Rightarrow>
          Inr (mat_mul (spec_parent_pose b)
                (mat_mul parentRestInverse (mat_mul (matrix_local b) localMatrix))))"

section \<open>Concrete bones and host functions for the examples\<close>

text \<open>
  A bone at rest in the origin, without parent and without custom properties, from which
  the examples are built by record update.
\<close>

definition rest_bone :: pose_bone where
  "rest_bone = \<lparr>rotation_mode = QUATERNION, rotation_axis_angle = (0, 0, 1, 0),
     location = Vec3 0 0 0, matrix = Matrix, vector = Vec3 0 1 0, matrix_local = Matrix,
     use_local_location = True, parent = None, props = Map.empty\<rparr>"

definition zero_matrix :: mat4 where
  "zero_matrix = Mat4 0 0 0 0  0 0 0 0  0 0 0 0  0 0 0 0"

text \<open>A bone whose parent has a singular rest matrix.\<close>

definition flat_parent_bone :: pose_bone where
  "flat_parent_bone =
     rest_bone\<lparr>parent := Some \<lparr>parent_matrix = Matrix, parent_matrix_local = zero_matrix\<rparr>\<rparr>"

text \<open>A bone with a posed parent: every matrix involved is a translation.\<close>

definition child_bone :: pose_bone where
  "child_bone =
     rest_bone\<lparr>matrix_local := Translation (Vec3 0 2 0),
       parent := Some \<lparr>parent_matrix = Translation (Vec3 1 0 0),
                       parent_matrix_local = Translation (Vec3 0 1 0)\<rparr>\<rparr>"


text \<open>Foot and thigh of a legacy rig, which carry the misspelt key, and of a current one.\<close>

definition legacy_footi :: pose_bone where
  "legacy_footi = rest_bone\<lparr>props := [''stretch_lenght'' \<mapsto> 1, ''stretch_length'' \<mapsto> 1]\<rparr>"

definition legacy_thigh :: pose_bone where
  "legacy_thigh = rest_bone\<lparr>props := [''stretch_lenght'' \<mapsto> 1, ''stretch_length'' \<mapsto> 2]\<rparr>"

definition plain_footi :: pose_bone where
  "plain_footi = rest_bone\<lparr>props := [''stretch_length'' \<mapsto> 1]\<rparr>"

definition plain_thigh :: pose_bone where
  "plain_thigh = rest_bone\<lparr>props := [''stretch_length'' \<mapsto> 2]\<rparr>"


text \<open>
  The chain of the specification's pole placement example: it starts in the origin, its
  last bone has its head at \<open>(1,0,0)\<close> and the direction \<open>(1,0,0)\<close>.
\<close>

definition straight_chain :: pole_rig where
  "straight_chain = \<lparr>ik_first = rest_bone,
     ik_last = rest_bone\<lparr>matrix := Translation (Vec3 1 0 0), vector := Vec3 1 0 0\<rparr>,
     pole = rest_bone, match_bone = rest_bone\<rparr>"

text \<open>
  The synthetic objective of the specification's ternary search property,
  \<open>f(x) = (x - x0)^2\<close>, as a function of the shape \<^verbatim>\<open>f(angle, bone_ik, bone_fk)\<close>; it
  leaves the bone alone.
\<close>

definition quadratic_objective :: "real \<Rightarrow> real \<Rightarrow> pose_bone \<Rightarrow> pose_bone \<Rightarrow> real \<times> pose_bone" where
  "quadratic_objective x0 angle bone_ik bone_fk = ((angle - x0) * (angle - x0), bone_ik)"

section \<open>The bracket scan in terms of its samples\<close>

text \<open>
  The distance \<^verbatim>\<open>tail_distance\<close> measures at an angle: the bone is in axis-angle mode
  with that angle when the host evaluates the tails.
\<close>

definition tail_objective :: "(pose_bone \<Rightarrow> vec3) \<Rightarrow> pose_bone \<Rightarrow> pose_bone \<Rightarrow> real \<Rightarrow> real" where
  "tail_objective tail bone_ik bone_fk angle =
     vlength (vsub (tail bone_fk)
       (tail (bone_ik\<lparr>rotation_mode := AXIS_ANGLE,
                rotation_axis_angle := set_angle angle (rotation_axis_angle bone_ik)\<rparr>)))"

text \<open>
  The angle of pass \<open>k\<close> of the loop for \<^verbatim>\<open>delta = pi/8\<close>, the loop's test on the three
  samples around an angle, and the bracket returned for an angle.
\<close>

definition scan_angle :: "real \<Rightarrow> nat \<Rightarrow> real" where
  "scan_angle start_angle k = start_angle + real k * (pi / 8)"

definition centre_is_min :: "(real \<Rightarrow> real) \<Rightarrow> real \<Rightarrow> bool" where
  "centre_is_min g angle =
     (min (min (g (angle - pi / 8)) (g angle)) (g (angle + pi / 8)) = g angle)"

definition bracket :: "real \<Rightarrow> real \<times> real" where
  "bracket angle = (angle - pi / 8, angle + pi / 8)"


definition angle_tail :: "pose_bone \<Rightarrow> vec3" where
  "angle_tail b = Vec3 (fst (rotation_axis_angle b)) 0 0"

definition left_target :: pose_bone where
  "left_target = rest_bone\<lparr>rotation_axis_angle := (- (pi / 4), 0, 1, 0)\<rparr>"



section \<open>Matrix algebra\<close>

lemma mat_mul_assoc: "mat_mul (mat_mul a b) c = mat_mul a (mat_mul b c)"
  by (cases a; cases b; cases c) (simp add: algebra_simps)

lemma mat_mul_Matrix_left: "mat_mul Matrix a = a"
  by (cases a) (simp add: Matrix_def)

lemma mat_mul_Matrix_right: "mat_mul a Matrix = a"
  by (cases a) (simp add: Matrix_def)

lemma mat_scale_mul_left: "mat_mul (mat_scale k a) b = mat_scale k (mat_mul a b)"
  by (cases a; cases b) (simp add: algebra_simps)

lemma mat_scale_mul_right: "mat_mul a (mat_scale k b) = mat_scale k (mat_mul a b)"
  by (cases a; cases b) (simp add: algebra_simps)

lemma adjugate_mul_left: "mat_mul (adjugate a) a = mat_scale (determinant a) Matrix"
  by (cases a) (simp add: Matrix_def Let_def algebra_simps)

lemma adjugate_mul_right: "mat_mul a (adjugate a) = mat_scale (determinant a) Matrix"
  by (cases a) (simp add: Matrix_def Let_def algebra_simps)

lemma mat_scale_scale: "mat_scale k (mat_scale l a) = mat_scale (k * l) a"
  by (cases a) simp

lemma mat_scale_one: "mat_scale 1 a = a"
  by (cases a) simp

lemma inverted_left: "inverted a = Inr ai \<Longrightarrow> mat_mul ai a = Matrix"
  by (auto simp: inverted_def mat_scale_mul_left adjugate_mul_left mat_scale_scale mat_scale_one
      split: if_splits)

lemma inverted_right: "inverted a = Inr ai \<Longrightarrow> mat_mul a ai = Matrix"
  by (auto simp: inverted_def mat_scale_mul_right adjugate_mul_right mat_scale_scale mat_scale_one
      split: if_splits)

lemma determinant_Matrix: "determinant Matrix = 1"
  by (simp add: Matrix_def)

lemma inverted_Matrix: "inverted Matrix = Inr Matrix"
  by (simp add: inverted_def Matrix_def)

lemma inverted_ex: "determinant a \<noteq> 0 \<Longrightarrow> \<exists>ai. inverted a = Inr ai"
  by (simp add: inverted_def)

lemma determinant_Translation: "determinant (Translation v) = 1"
  by (simp add: Translation_def)

section \<open>Space conversion\<close>

lemma get_pose_matrix_in_other_space_spec:
  "get_pose_matrix_in_other_space mat b = spec_convert_to_local mat b"
  by (simp add: get_pose_matrix_in_other_space_def spec_convert_to_local_def spec_parent_pose_def
      spec_parent_rest_def inverted_Matrix Let_def split: sum.splits option.splits)

text \<open>
  C5. For every armature-space matrix and every bone, \<^verbatim>\<open>get_pose_matrix_in_other_space\<close>
  computes what the specification's formula does: \<open>rest^-1 * (parentRest * (parentPose^-1 *
  worldMatrix))\<close>, with parent pose and parent rest the identity for a bone without parent,
  and \<^verbatim>\<open>ValueError\<close> exactly where the formula has no value.
\<close>

theorem get_pose_matrix_in_other_space_formula:
  "get_pose_matrix_in_other_space worldMatrix b = spec_convert_to_local worldMatrix b
   \<and> spec_parent_pose (b\<lparr>parent := None\<rparr>) = Matrix
   \<and> spec_parent_rest (b\<lparr>parent := None\<rparr>) = Matrix"
  by (simp add: get_pose_matrix_in_other_space_spec spec_parent_pose_def spec_parent_rest_def)

text \<open>
  C4, as amended. When the bone's rest matrix, its parent's pose matrix and also its
  parent's rest matrix are invertible, the conversion round-trips in both directions:
  taking the converter's result back to world space gives the world matrix again, and
  converting the world form of a local matrix gives the local matrix again.
\<close>

theorem space_conversion_round_trip:
  assumes "determinant (matrix_local b) \<noteq> 0"
    and "determinant (spec_parent_pose b) \<noteq> 0"
    and "determinant (spec_parent_rest b) \<noteq> 0"
  shows "(\<exists>l. get_pose_matrix_in_other_space W b = Inr l \<and> spec_convert_to_world l b = Inr W)
       \<and> (\<exists>w. spec_convert_to_world M b = Inr w \<and> get_pose_matrix_in_other_space w b = Inr M)"
proof -
  obtain ri where ri: "inverted (matrix_local b) = Inr ri"
    using assms(1) inverted_ex by blast
  obtain ppi where ppi: "inverted (spec_parent_pose b) = Inr ppi"
    using assms(2) inverted_ex by blast
  obtain pri where pri: "inverted (spec_parent_rest b) = Inr pri"
    using assms(3) inverted_ex by blast
  note L = inverted_left[OF ri] inverted_left[OF ppi] inverted_left[OF pri]
  note R = inverted_right[OF ri] inverted_right[OF ppi] inverted_right[OF pri]
  have wld: "mat_mul (spec_parent_pose b) (mat_mul pri (mat_mul (matrix_local b)
            (mat_mul ri (mat_mul (spec_parent_rest b) (mat_mul ppi W))))) = W"
    by (metis L(3) R(1) R(2) mat_mul_assoc mat_mul_Matrix_left)
  have loc: "mat_mul ri (mat_mul (spec_parent_rest b) (mat_mul ppi
            (mat_mul (spec_parent_pose b) (mat_mul pri (mat_mul (matrix_local b) M))))) = M"
    by (metis L(1) L(2) R(3) mat_mul_assoc mat_mul_Matrix_left)
  show ?thesis
    using wld loc
    by (simp add: get_pose_matrix_in_other_space_spec spec_convert_to_local_def
        spec_convert_to_world_def ri ppi pri)
qed

theorem space_conversion_round_trip_witness:
  "determinant (matrix_local child_bone) \<noteq> 0
   \<and> determinant (spec_parent_pose child_bone) \<noteq> 0
   \<and> determinant (spec_parent_rest child_bone) \<noteq> 0
   \<and> (\<exists>l. get_pose_matrix_in_other_space (Translation (Vec3 1 2 3)) child_bone = Inr l
          \<and> spec_convert_to_world l child_bone = Inr (Translation (Vec3 1 2 3)))
   \<and> (\<exists>w. spec_convert_to_world (Translation (Vec3 1 2 3)) child_bone = Inr w
          \<and> get_pose_matrix_in_other_space w child_bone = Inr (Translation (Vec3 1 2 3)))"
proof -
  have d: "determinant (matrix_local child_bone) \<noteq> 0"
    "determinant (spec_parent_pose child_bone) \<noteq> 0"
    "determinant (spec_parent_rest child_bone) \<noteq> 0"
    by (simp_all add: child_bone_def rest_bone_def spec_parent_pose_def spec_parent_rest_def
        determinant_Translation)
  show ?thesis
    using d space_conversion_round_trip [OF d, of "Translation (Vec3 1 2 3)" "Translation (Vec3 1 2 3)"]
    by simp
qed

text \<open>
  C4 as stated fails: with the rest matrix and the parent's pose matrix invertible but the
  parent's rest matrix singular, two different world matrices are converted to the same
  local matrix, and taking that matrix back to world space has no value.
\<close>

theorem space_conversion_round_trip_counterexample:
  "determinant (matrix_local flat_parent_bone) \<noteq> 0
   \<and> determinant (spec_parent_pose flat_parent_bone) \<noteq> 0
   \<and> get_pose_matrix_in_other_space Matrix flat_parent_bone = Inr zero_matrix
   \<and> get_pose_matrix_in_other_space (Translation (Vec3 1 0 0)) flat_parent_bone = Inr zero_matrix
   \<and> Translation (Vec3 1 0 0) \<noteq> Matrix
   \<and> spec_convert_to_world zero_matrix flat_parent_bone = Inl ValueError"
  by (simp add: flat_parent_bone_def rest_bone_def spec_parent_pose_def spec_parent_rest_def
      get_pose_matrix_in_other_space_def spec_convert_to_world_def inverted_def Matrix_def
      zero_matrix_def Translation_def)

section \<open>The stretch step of the leg matcher\<close>

text \<open>
  C10. The stretch step of the pole branch of \<^verbatim>\<open>ik2fk_leg\<close> performs the copy
  \<^verbatim>\<open>footi['stretch_length'] = thigh['stretch_length']\<close> exactly when both bones carry
  the key spelt \<^verbatim>\<open>'stretch_lenght'\<close>; otherwise, so for bones that carry the correctly
  spelt key only, the step leaves \<^verbatim>\<open>footi\<close> as it was.
\<close>

theorem ik2fk_leg_stretch_misspelt_key:
  "(props footi ''stretch_lenght'' \<noteq> None \<and> props thigh ''stretch_lenght'' \<noteq> None \<longrightarrow>
      ik2fk_leg_stretch footi thigh =
        (case props thigh ''stretch_length'' of
           None \<Rightarrow> Inl KeyError
         | Some v \<Rightarrow> Inr (footi\<lparr>props := (props footi)(''stretch_length'' \<mapsto> v)\<rparr>)))
   \<and> (\<not> (props footi ''stretch_lenght'' \<noteq> None \<and> props thigh ''stretch_lenght'' \<noteq> None) \<longrightarrow>
      ik2fk_leg_stretch footi thigh = Inr footi)"
  by (simp add: ik2fk_leg_stretch_def)

theorem ik2fk_leg_stretch_misspelt_key_witness:
  "ik2fk_leg_stretch legacy_footi legacy_thigh
     = Inr (legacy_footi\<lparr>props := (props legacy_footi)(''stretch_length'' \<mapsto> 2)\<rparr>)
   \<and> props plain_footi ''stretch_lenght'' = None
   \<and> props plain_footi ''stretch_length'' = Some 1
   \<and> props plain_thigh ''stretch_length'' = Some 2
   \<and> ik2fk_leg_stretch plain_footi plain_thigh = Inr plain_footi"
  using ik2fk_leg_stretch_misspelt_key [of legacy_footi legacy_thigh]
    ik2fk_leg_stretch_misspelt_key [of plain_footi plain_thigh]
  by (simp add: legacy_footi_def legacy_thigh_def plain_footi_def plain_thigh_def rest_bone_def)

section \<open>Rotation difference\<close>





section \<open>Pole placement\<close>

lemma vlength_eq_0: "vlength v = 0 \<longleftrightarrow> v = Vec3 0 0 0"
proof (cases v)
  case (Vec3 x y z)
  have "x * x + y * y + z * z = 0 \<longleftrightarrow> x = 0 \<and> y = 0 \<and> z = 0"
    by (metis add_nonneg_eq_0_iff mult_eq_0_iff zero_le_square add_nonneg_nonneg)
  then show ?thesis using Vec3 by (simp add: vlength_def)
qed

lemma vlength_vscale: "vlength (vscale v k) = \<bar>k\<bar> * vlength v"
proof -
  have "vx v * k * (vx v * k) + vy v * k * (vy v * k) + vz v * k * (vz v * k)
        = (k * k) * (vx v * vx v + vy v * vy v + vz v * vz v)"
    by (simp add: algebra_simps)
  then show ?thesis
    by (simp add: vlength_def vscale_def real_sqrt_mult)
qed

lemma vlength_normalized: "v \<noteq> Vec3 0 0 0 \<Longrightarrow> vlength (normalized v) = 1"
proof -
  assume nz: "v \<noteq> Vec3 0 0 0"
  then have L: "vlength v \<noteq> 0" by (simp add: vlength_eq_0)
  have "normalized v = vscale v (1 / vlength v)"
    using L by (simp add: normalized_def vdiv_def vscale_def)
  then have "vlength (normalized v) = \<bar>1 / vlength v\<bar> * vlength v"
    by (simp add: vlength_vscale)
  moreover have "0 \<le> vlength v" by (simp add: vlength_def)
  ultimately show ?thesis using L by simp
qed

lemma perpendicular_vector_nonzero:
  "v \<noteq> Vec3 0 0 0 \<Longrightarrow> perpendicular_vector v \<noteq> Vec3 0 0 0"
  by (cases v) (auto simp: perpendicular_vector_def cross_def Let_def)

lemma perpendicular_vector_dot: "vdot (perpendicular_vector v) v = 0"
  by (cases v) (simp add: perpendicular_vector_def cross_def vdot_def Let_def)

lemma pole_vector_dot: "vdot (pole_vector v len) v = 0"
proof -
  have "vdot (vscale (vdiv p k) len) v = vdot p v / k * len" for p k
    by (simp add: vdot_def vscale_def vdiv_def field_simps add_divide_distrib)
  then show ?thesis
    by (simp add: pole_vector_def normalized_def perpendicular_vector_dot)
      (simp add: vdot_def vscale_def)
qed

lemma pole_vector_length: "v \<noteq> Vec3 0 0 0 \<Longrightarrow> vlength (pole_vector v len) = \<bar>len\<bar>"
  by (simp add: pole_vector_def vlength_vscale vlength_normalized perpendicular_vector_nonzero)

lemma pole_location_offset: "vsub (pole_location a v p) (vadd a (vdiv v 2)) = p"
  by (cases p) (simp add: pole_location_def vsub_def vadd_def)

text \<open>
  C8. For a chain whose vector \<open>v\<close> (head of the first bone to tail of the last) is not
  zero and a pole distance \<open>len\<close> (a distance: not negative), the helper axis chosen by
  \<^verbatim>\<open>perpendicular_vector\<close> is not parallel to \<open>v\<close>, so the cross product is not zero; the
  offset \<^verbatim>\<open>pv\<close> is orthogonal to \<open>v\<close> and has length \<open>len\<close>; and the pole position
  \<^verbatim>\<open>ploc = a + ikv/2 + pv\<close> lies at distance \<open>len\<close> from the chain's midpoint, in the
  plane through it that is perpendicular to \<open>v\<close>.
\<close>

theorem pole_placement_distance:
  assumes "chain_vector rig \<noteq> Vec3 0 0 0" and "0 \<le> len"
  shows "cross (chain_vector rig)
           (if \<bar>vx (chain_vector rig)\<bar> < \<bar>vy (chain_vector rig)\<bar> then Vec3 1 0 0 else Vec3 0 1 0)
           \<noteq> Vec3 0 0 0
    \<and> perpendicular_vector (chain_vector rig) \<noteq> Vec3 0 0 0
    \<and> vdot (pole_vector (chain_vector rig) len) (chain_vector rig) = 0
    \<and> vlength (pole_vector (chain_vector rig) len) = len
    \<and> vlength (vsub (pole_location a (chain_vector rig) (pole_vector (chain_vector rig) len))
                     (vadd a (vdiv (chain_vector rig) 2))) = len
    \<and> vdot (vsub (pole_location a (chain_vector rig) (pole_vector (chain_vector rig) len))
                  (vadd a (vdiv (chain_vector rig) 2))) (chain_vector rig) = 0"
proof -
  have helper: "cross v (if \<bar>vx v\<bar> < \<bar>vy v\<bar> then Vec3 1 0 0 else Vec3 0 1 0)
      = perpendicular_vector v" for v
    by (simp add: perpendicular_vector_def)
  show ?thesis
    unfolding helper using assms
    by (simp add: perpendicular_vector_nonzero pole_location_offset pole_vector_dot
        pole_vector_length)
qed

text \<open>
  The specification's example: chain start \<open>(0,0,0)\<close>, chain vector \<open>(2,0,0)\<close>, pole distance
  1. The pole position is \<open>(1,0,1)\<close>, at distance 1 from the midpoint \<open>(1,0,0)\<close> and
  perpendicular to the chain vector.
\<close>

theorem pole_placement_distance_witness:
  "chain_vector straight_chain = Vec3 2 0 0
   \<and> to_translation (matrix (ik_first straight_chain)) = Vec3 0 0 0
   \<and> pole_location (Vec3 0 0 0) (chain_vector straight_chain)
        (pole_vector (chain_vector straight_chain) 1) = Vec3 1 0 1
   \<and> vlength (vsub (pole_location (Vec3 0 0 0) (chain_vector straight_chain)
                      (pole_vector (chain_vector straight_chain) 1)) (Vec3 1 0 0)) = 1
   \<and> vdot (vsub (pole_location (Vec3 0 0 0) (chain_vector straight_chain)
                      (pole_vector (chain_vector straight_chain) 1)) (Vec3 1 0 0)) (Vec3 2 0 0) = 0"
proof -
  have cv: "chain_vector straight_chain = Vec3 2 0 0"
    by (simp add: chain_vector_def straight_chain_def rest_bone_def Matrix_def Translation_def
        to_translation_def vadd_def vsub_def)
  have a: "to_translation (matrix (ik_first straight_chain)) = Vec3 0 0 0"
    by (simp add: straight_chain_def rest_bone_def Matrix_def to_translation_def)
  have mid: "vadd (Vec3 0 0 0) (vdiv (Vec3 2 0 0) 2) = Vec3 1 0 0"
    by (simp add: vadd_def vdiv_def)
  have pl: "pole_location (Vec3 0 0 0) (Vec3 2 0 0) (pole_vector (Vec3 2 0 0) 1) = Vec3 1 0 1"
    by (simp add: pole_location_def pole_vector_def perpendicular_vector_def cross_def
        normalized_def vlength_def vadd_def vdiv_def vscale_def)
  show ?thesis
    using pole_placement_distance [of straight_chain 1 "Vec3 0 0 0"] by (simp add: cv a mid pl)
qed

section \<open>Ternary search\<close>

lemma ternary_return:
  "\<bar>right - left\<bar> < eps \<Longrightarrow>
     ternarySearch f left right bone_ik bone_fk eps = Some ((left + right) / 2, bone_ik)"
  by (subst ternarySearch.simps) simp

lemma midpoint_close:
  "left \<le> m \<Longrightarrow> m \<le> right \<Longrightarrow> \<bar>right - left\<bar> < eps \<Longrightarrow> \<bar>(left + right) / 2 - m\<bar> < eps / 2"
  for m :: real
  by argo

lemma ternary_converges:
  assumes pure: "\<And>x b. f x b bone_fk = (g x, b)"
    and dec: "\<And>x y. x < y \<Longrightarrow> y \<le> m \<Longrightarrow> g y < g x"
    and inc: "\<And>x y. m \<le> x \<Longrightarrow> x < y \<Longrightarrow> g x < g y"
    and "left \<le> m" "m \<le> right" "(right - left) * (2 / 3) ^ n < eps"
  shows "\<exists>res. ternarySearch f left right bone_ik bone_fk eps = Some (res, bone_ik)
           \<and> \<bar>res - m\<bar> < eps / 2"
  using assms(4-)
proof (induction n arbitrary: left right)
  case 0
  then have "\<bar>right - left\<bar> < eps" by simp
  then show ?case
    using 0 ternary_return [where left = left and right = right and eps = eps and f = f] midpoint_close [where left = left and right = right and eps = eps and m = m]
    by blast
next
  case (Suc n)
  show ?case
  proof (cases "\<bar>right - left\<bar> < eps")
    case True
    then show ?thesis
      using Suc.prems ternary_return [where left = left and right = right and eps = eps and f = f]
        midpoint_close [where left = left and right = right and eps = eps and m = m]
      by blast
  next
    case False
    define lt where "lt = left + (right - left) / 3"
    define rt where "rt = right - (right - left) / 3"
    have lr: "left < right"
    proof (rule ccontr)
      assume "\<not> left < right"
      then have "left = right" using Suc.prems by simp
      then show False using False Suc.prems(3) by simp
    qed
    then have ltrt: "lt < rt" by (simp add: lt_def rt_def) argo
    have unf: "ternarySearch f left right bone_ik bone_fk eps =
        (if g lt > g rt then ternarySearch f lt right bone_ik bone_fk eps
         else ternarySearch f left rt bone_ik bone_fk eps)"
      using False by (subst ternarySearch.simps) (simp add: pure Let_def lt_def rt_def)
    show ?thesis
    proof (cases "g lt > g rt")
      case True
      have "lt < m"
      proof (rule ccontr)
        assume "\<not> lt < m"
        then have "g lt < g rt" using inc [of lt rt] ltrt by simp
        with True show False by simp
      qed
      moreover have "(right - lt) * (2 / 3) ^ n < eps"
      proof -
        have w: "right - lt = (right - left) * (2 / 3)"
          unfolding lt_def by argo
        have "(right - lt) * (2 / 3) ^ n = (right - left) * (2 / 3) ^ Suc n"
          unfolding w by (simp only: power_Suc mult.assoc)
        also have "\<dots> < eps" by (rule Suc.prems(3))
        finally show ?thesis .
      qed
      ultimately show ?thesis
        using Suc.IH [of lt right] Suc.prems True unf by simp
    next
      case False
      have "m < rt"
      proof (rule ccontr)
        assume "\<not> m < rt"
        then have "g rt < g lt" using dec [of lt rt] ltrt by simp
        with False show False by simp
      qed
      moreover have "(rt - left) * (2 / 3) ^ n < eps"
      proof -
        have w: "rt - left = (right - left) * (2 / 3)"
          unfolding rt_def by argo
        have "(rt - left) * (2 / 3) ^ n = (right - left) * (2 / 3) ^ Suc n"
          unfolding w by (simp only: power_Suc mult.assoc)
        also have "\<dots> < eps" by (rule Suc.prems(3))
        finally show ?thesis .
      qed
      ultimately show ?thesis
        using Suc.IH [of left rt] Suc.prems False unf by simp
    qed
  qed
qed

lemma ternary_unimodal:
  assumes pure: "\<And>x b. f x b bone_fk = (g x, b)"
    and dec: "\<And>x y. x < y \<Longrightarrow> y \<le> m \<Longrightarrow> g y < g x"
    and inc: "\<And>x y. m \<le> x \<Longrightarrow> x < y \<Longrightarrow> g x < g y"
    and "left \<le> m" "m \<le> right" "0 < eps"
  shows "\<exists>res. ternarySearch f left right bone_ik bone_fk eps = Some (res, bone_ik)
           \<and> \<bar>res - m\<bar> < eps / 2"
proof -
  have "\<exists>n. (right - left) * (2 / 3) ^ n < eps"
  proof (cases "right - left \<le> 0")
    case True
    then have "(right - left) * (2 / 3) ^ 0 < eps" using assms(6) by simp
    then show ?thesis by blast
  next
    case False
    then have pos: "0 < eps / (right - left)" using assms(6) by simp
    obtain n where "(2 / 3 :: real) ^ n < eps / (right - left)"
      using real_arch_pow_inv [OF pos, of "2/3"] by auto
    then have "(right - left) * (2 / 3) ^ n < eps"
      using False by (simp add: field_simps)
    then show ?thesis by blast
  qed
  then obtain n where n: "(right - left) * (2 / 3) ^ n < eps" by blast
  show ?thesis
    using n by (rule ternary_converges [where f = f and g = g and m = m, OF pure dec inc assms(4) assms(5), rotated -1])
qed

lemma quad_dec: "x < y \<Longrightarrow> y \<le> x0 \<Longrightarrow> (y - x0) * (y - x0) < (x - x0) * (x - x0)" for x :: real
proof -
  assume a: "x < y" "y \<le> x0"
  have "(x - x0) * (x - x0) - (y - x0) * (y - x0) = (x - y) * (x + y - 2 * x0)"
    by (simp add: algebra_simps)
  moreover have "(x - y) * (x + y - 2 * x0) > 0"
    using a by (intro mult_neg_neg) auto
  ultimately show ?thesis by linarith
qed

lemma quad_inc: "x0 \<le> x \<Longrightarrow> x < y \<Longrightarrow> (x - x0) * (x - x0) < (y - x0) * (y - x0)" for x :: real
proof -
  assume a: "x0 \<le> x" "x < y"
  have "(y - x0) * (y - x0) - (x - x0) * (x - x0) = (y - x) * (x + y - 2 * x0)"
    by (simp add: algebra_simps)
  moreover have "(y - x) * (x + y - 2 * x0) > 0"
    using a by (intro mult_pos_pos) auto
  ultimately show ?thesis by linarith
qed

lemma ternarySearch_quadratic: "\<exists>res. ternarySearch (quadratic_objective x0) (x0 - 1) (x0 + 1) bone_ik bone_fk (1 / 100)
          = Some (res, bone_ik) \<and> \<bar>res - x0\<bar> < 1 / 100"
proof -
  have "\<exists>res. ternarySearch (quadratic_objective x0) (x0 - 1) (x0 + 1) bone_ik bone_fk (1 / 100)
          = Some (res, bone_ik) \<and> \<bar>res - x0\<bar> < (1 / 100) / 2"
    by (rule ternary_unimodal [where g = "\<lambda>x. (x - x0) * (x - x0)"])
      (simp_all add: quadratic_objective_def quad_dec quad_inc)
  then show ?thesis by auto
qed

text \<open>
  C6. \<^verbatim>\<open>ternarySearch\<close> returns the midpoint as soon as the bracket is narrower than the
  precision, and otherwise goes on with the bracket cut by the third on the side of the
  larger of the two samples at the third-points. For an objective that depends on the angle
  only and is unimodal with its minimum at \<open>m\<close> inside the bracket, it returns, with a value
  within half the precision of \<open>m\<close>. In particular for \<open>f(x) = (x - x0)^2\<close>, bracket
  \<open>[x0 - 1, x0 + 1]\<close> and precision 0.01 it returns a value within 0.01 of \<open>x0\<close>.
\<close>

theorem ternarySearch_converges:
  "(\<bar>right - left\<bar> < eps \<longrightarrow>
      ternarySearch f left right bone_ik bone_fk eps = Some ((left + right) / 2, bone_ik))
   \<and> (\<not> \<bar>right - left\<bar> < eps \<longrightarrow>
      ternarySearch f left right bone_ik bone_fk eps =
        (let fl = f (left + (right - left) / 3) bone_ik bone_fk;
             fr = f (right - (right - left) / 3) (snd fl) bone_fk
         in if fst fl > fst fr
            then ternarySearch f (left + (right - left) / 3) right (snd fr) bone_fk eps
            else ternarySearch f left (right - (right - left) / 3) (snd fr) bone_fk eps))
   \<and> ((\<forall>x b. h x b bone_fk = (g x, b)) \<and> (\<forall>x y. x < y \<and> y \<le> m \<longrightarrow> g y < g x)
        \<and> (\<forall>x y. m \<le> x \<and> x < y \<longrightarrow> g x < g y) \<and> lo \<le> m \<and> m \<le> hi \<and> 0 < tol \<longrightarrow>
      (\<exists>res. ternarySearch h lo hi bone_ik bone_fk tol = Some (res, bone_ik)
            \<and> \<bar>res - m\<bar> < tol / 2))
   \<and> (\<exists>res. ternarySearch (quadratic_objective x0) (x0 - 1) (x0 + 1) bone_ik bone_fk (1 / 100)
              = Some (res, bone_ik) \<and> \<bar>res - x0\<bar> < 1 / 100)"
proof (intro conjI impI)
  assume "\<bar>right - left\<bar> < eps"
  then show "ternarySearch f left right bone_ik bone_fk eps = Some ((left + right) / 2, bone_ik)"
    by (rule ternary_return)
next
  assume "\<not> \<bar>right - left\<bar> < eps"
  then show "ternarySearch f left right bone_ik bone_fk eps =
        (let fl = f (left + (right - left) / 3) bone_ik bone_fk;
             fr = f (right - (right - left) / 3) (snd fl) bone_fk
         in if fst fl > fst fr
            then ternarySearch f (left + (right - left) / 3) right (snd fr) bone_fk eps
            else ternarySearch f left (right - (right - left) / 3) (snd fr) bone_fk eps)"
    by (subst ternarySearch.simps) (simp add: Let_def)
next
  assume a: "(\<forall>x b. h x b bone_fk = (g x, b)) \<and> (\<forall>x y. x < y \<and> y \<le> m \<longrightarrow> g y < g x)
        \<and> (\<forall>x y. m \<le> x \<and> x < y \<longrightarrow> g x < g y) \<and> lo \<le> m \<and> m \<le> hi \<and> 0 < tol"
  show "\<exists>res. ternarySearch h lo hi bone_ik bone_fk tol = Some (res, bone_ik)
            \<and> \<bar>res - m\<bar> < tol / 2"
    by (rule ternary_unimodal [where g = g]) (use a in simp_all)
next
  show "\<exists>res. ternarySearch (quadratic_objective x0) (x0 - 1) (x0 + 1) bone_ik bone_fk (1 / 100)
              = Some (res, bone_ik) \<and> \<bar>res - x0\<bar> < 1 / 100"
    by (rule ternarySearch_quadratic)
qed

theorem ternarySearch_converges_witness:
  "ternarySearch (quadratic_objective (1 / 2)) (499 / 1000) (501 / 1000) rest_bone rest_bone (1 / 100)
     = Some (1 / 2, rest_bone)
   \<and> (\<exists>res. ternarySearch (quadratic_objective (1 / 2)) (- (1 / 2)) (3 / 2) rest_bone rest_bone (1 / 100)
              = Some (res, rest_bone) \<and> \<bar>res - 1 / 2\<bar> < 1 / 200)"
proof -
  have q: "(\<forall>x b. quadratic_objective (1 / 2) x b rest_bone = ((x - 1 / 2) * (x - 1 / 2), b))
      \<and> (\<forall>x y. x < y \<and> y \<le> 1 / 2 \<longrightarrow> (y - 1 / 2) * (y - 1 / 2) < (x - 1 / 2) * (x - 1 / 2 :: real))
      \<and> (\<forall>x y. 1 / 2 \<le> x \<and> x < y \<longrightarrow> (x - 1 / 2) * (x - 1 / 2) < (y - 1 / 2) * (y - 1 / 2 :: real))"
    using quad_dec [where ?x0.0 = "1 / 2"] quad_inc [where ?x0.0 = "1 / 2"]
    by (simp add: quadratic_objective_def)
  show ?thesis
    using q ternarySearch_converges [of "501 / 1000" "499 / 1000" "1 / 100" "quadratic_objective (1 / 2)" rest_bone rest_bone
        "quadratic_objective (1 / 2)" "\<lambda>x. (x - 1 / 2) * (x - 1 / 2)" "1 / 2" "- (1 / 2)" "3 / 2" "1 / 100" 0]
    by simp
qed

section \<open>Tail distance and the bracket scan\<close>

lemma set_angle_set_angle: "set_angle x (set_angle y aa) = set_angle x aa"
  by (simp add: set_angle_def)

lemma fst_set_angle: "fst (set_angle x aa) = x"
  by (simp add: set_angle_def)

lemma rotation_mode_same: "rotation_mode b = m \<Longrightarrow> b\<lparr>rotation_mode := m\<rparr> = b"
  by (cases b) simp

lemma tail_distance_eq:
  "tail_distance tail x b bfk =
     (tail_objective tail b bfk x, b\<lparr>rotation_axis_angle := set_angle x (rotation_axis_angle b)\<rparr>)"
proof (cases "rotation_mode b = AXIS_ANGLE")
  case True
  then show ?thesis
    by (simp add: tail_distance_def tail_objective_def Let_def rotation_mode_same)
next
  case False
  then show ?thesis
    by (simp add: tail_distance_def tail_objective_def Let_def)
qed

lemma tail_objective_angle:
  "tail_objective tail (b\<lparr>rotation_axis_angle := set_angle y (rotation_axis_angle b)\<rparr>) bfk
     = tail_objective tail b bfk"
  by (rule ext) (simp add: tail_objective_def set_angle_set_angle)

lemma tail_objective_mode:
  "tail_objective tail (b\<lparr>rotation_mode := m\<rparr>) bfk = tail_objective tail b bfk"
  by (rule ext) (simp add: tail_objective_def)

lemma scan_angle_in_window:
  "k < 16 \<Longrightarrow> s - 2 * pi < scan_angle s k \<and> scan_angle s k < s + 2 * pi"
proof -
  assume "k < 16"
  then have "real k < 16" by simp
  then have "real k * (pi / 8) < 16 * (pi / 8)"
    by (intro mult_strict_right_mono) simp_all
  moreover have "0 \<le> real k * (pi / 8)" by simp
  moreover have "0 < 2 * pi" by simp
  ultimately show ?thesis unfolding scan_angle_def by linarith
qed

lemma scan_angle_16: "scan_angle s 16 = s + 2 * pi"
  by (simp add: scan_angle_def)

lemma scan_angle_Suc: "scan_angle s k + pi / 8 = scan_angle s (Suc k)"
  by (simp add: scan_angle_def algebra_simps)

lemma find_min_loop_step:
  assumes "k < 16"
  shows "find_min_loop (tail_distance tail) (pi / 8) rm s (scan_angle s k) b bfk =
     (if centre_is_min (tail_objective tail b bfk) (scan_angle s k)
      then Some (Some (bracket (scan_angle s k)),
             b\<lparr>rotation_axis_angle := set_angle (scan_angle s (Suc k)) (rotation_axis_angle b),
               rotation_mode := rm\<rparr>)
      else find_min_loop (tail_distance tail) (pi / 8) rm s (scan_angle s (Suc k))
             (b\<lparr>rotation_axis_angle := set_angle (scan_angle s (Suc k)) (rotation_axis_angle b)\<rparr>) bfk)"
  using scan_angle_in_window [OF assms, of s]
  by (subst find_min_loop.simps)
    (simp add: tail_distance_eq tail_objective_angle set_angle_set_angle centre_is_min_def
      bracket_def Let_def scan_angle_Suc)

lemma find_min_loop_exit:
  "find_min_loop f (pi / 8) rm s (scan_angle s 16) b bfk = Some (None, b)"
  by (subst find_min_loop.simps) (simp add: scan_angle_16)

lemma find_min_loop_scan:
  assumes "k \<le> 16"
  shows "find_min_loop (tail_distance tail) (pi / 8) rm s (scan_angle s k) b bfk =
     (case find (\<lambda>j. centre_is_min (tail_objective tail b bfk) (scan_angle s j)) [k..<16] of
        Some j \<Rightarrow> Some (Some (bracket (scan_angle s j)),
            b\<lparr>rotation_axis_angle := set_angle (scan_angle s (Suc j)) (rotation_axis_angle b),
              rotation_mode := rm\<rparr>)
      | None \<Rightarrow> Some (None,
            if k < 16 then b\<lparr>rotation_axis_angle := set_angle (s + 2 * pi) (rotation_axis_angle b)\<rparr>
            else b))"
  using assms
proof (induction "16 - k" arbitrary: k b)
  case 0
  then have "k = 16" by simp
  then show ?case by (simp add: find_min_loop_exit)
next
  case (Suc n)
  then have k: "k < 16" and n: "n = 16 - Suc k" and k': "Suc k \<le> 16" by simp_all
  have upt: "[k..<16] = k # [Suc k..<16]" using k by (simp add: upt_conv_Cons)
  have last: "\<not> Suc k < 16 \<Longrightarrow> scan_angle s (Suc k) = s + 2 * pi"
    using k' scan_angle_16 [of s] by (cases "Suc k = 16") simp_all
  show ?case
    using Suc.hyps(1) [OF n k',
        of "b\<lparr>rotation_axis_angle := set_angle (scan_angle s (Suc k)) (rotation_axis_angle b)\<rparr>"]
      last k
    by (simp add: find_min_loop_step [OF k] upt tail_objective_angle set_angle_set_angle
        split: option.splits)
qed

section \<open>The bracket scan on the tail distance\<close>

lemma centre_is_min_iff:
  "centre_is_min g a \<longleftrightarrow> g a \<le> g (a - pi / 8) \<and> g a \<le> g (a + pi / 8)"
  by (auto simp: centre_is_min_def min_def)

lemma find_min_range_scan:
  "find_min_range (tail_distance tail) (pi / 8) b bfk =
     (case find (\<lambda>j. centre_is_min (tail_objective tail b bfk)
                   (scan_angle (fst (rotation_axis_angle b)) j)) [0..<16] of
        Some j \<Rightarrow> Some (Some (bracket (scan_angle (fst (rotation_axis_angle b)) j)),
            b\<lparr>rotation_axis_angle :=
                 set_angle (scan_angle (fst (rotation_axis_angle b)) (Suc j)) (rotation_axis_angle b)\<rparr>)
      | None \<Rightarrow> Some (None,
            b\<lparr>rotation_mode := AXIS_ANGLE,
              rotation_axis_angle := set_angle (fst (rotation_axis_angle b) + 2 * pi) (rotation_axis_angle b)\<rparr>))"
proof -
  have s0: "fst (rotation_axis_angle b) = scan_angle (fst (rotation_axis_angle b)) 0"
    by (simp add: scan_angle_def)
  have b1: "(if rotation_mode b \<noteq> AXIS_ANGLE then b\<lparr>rotation_mode := AXIS_ANGLE\<rparr> else b)
      = b\<lparr>rotation_mode := AXIS_ANGLE\<rparr>"
    by (simp add: rotation_mode_same)
  have "find_min_range (tail_distance tail) (pi / 8) b bfk =
      find_min_loop (tail_distance tail) (pi / 8) (rotation_mode b) (fst (rotation_axis_angle b))
        (scan_angle (fst (rotation_axis_angle b)) 0) (b\<lparr>rotation_mode := AXIS_ANGLE\<rparr>) bfk"
    unfolding find_min_range_def Let_def b1 using s0 by simp
  then show ?thesis
    by (simp add: find_min_loop_scan tail_objective_mode split: option.splits)
qed

lemma find_increasing:
  assumes "\<And>k. k < 16 \<Longrightarrow> g (scan_angle s k - pi / 8) < g (scan_angle s k)"
  shows "find (\<lambda>j. centre_is_min g (scan_angle s j)) [0..<16] = None"
  using assms by (fastforce simp: find_None_iff centre_is_min_iff)

lemma tail_objective_angle_tail:
  "tail_objective angle_tail b left_target x = \<bar>x + pi / 4\<bar>"
proof -
  have "\<bar>- (pi / 4) - x\<bar> = \<bar>x + pi / 4\<bar>" by argo
  then show ?thesis
    by (simp add: tail_objective_def angle_tail_def left_target_def vsub_def vlength_def
        set_angle_def)
qed

lemma find_angle_tail:
  "find (\<lambda>j. centre_is_min (tail_objective angle_tail b left_target) (scan_angle 0 j)) [0..<16] = None"
proof (rule find_increasing)
  fix k :: nat
  have "0 \<le> scan_angle 0 k" by (simp add: scan_angle_def)
  moreover have "0 < pi / 8" by simp
  ultimately show "tail_objective angle_tail b left_target (scan_angle 0 k - pi / 8)
      < tail_objective angle_tail b left_target (scan_angle 0 k)"
    unfolding tail_objective_angle_tail by argo
qed

lemma find_min_range_angle_tail_rest:
  "find_min_range (tail_distance angle_tail) (pi / 8) rest_bone left_target =
     Some (None, rest_bone\<lparr>rotation_mode := AXIS_ANGLE, rotation_axis_angle := (2 * pi, 0, 1, 0)\<rparr>)"
proof -
  have s: "fst (rotation_axis_angle rest_bone) = 0" "rotation_axis_angle rest_bone = (0, 0, 1, 0)"
    by (simp_all add: rest_bone_def)
  show ?thesis
    by (simp add: find_min_range_scan s find_angle_tail set_angle_def)
qed

lemma tail_distance_restores_mode:
  "rotation_mode (snd (tail_distance tail angle bone_ik bone_fk)) = rotation_mode bone_ik"
  by (simp add: tail_distance_eq)

lemma find_min_range_found_restores_mode:
  "find_min_range (tail_distance tail) (pi / 8) bone_ik bone_fk = Some (Some alfarange, b') \<Longrightarrow>
     rotation_mode b' = rotation_mode bone_ik"
  by (auto simp: find_min_range_scan split: option.splits)

text \<open>
  C3 at a failing input. The bone is in quaternion mode and the distance grows with the
  angle over the whole scan, so no bracket is found: \<^verbatim>\<open>find_min_range\<close> returns
  \<^verbatim>\<open>None\<close> and leaves the bone in axis-angle mode. (\<^verbatim>\<open>tail_distance\<close> and the exit of
  \<^verbatim>\<open>find_min_range\<close> with a bracket do restore the mode: the two lemmas above.)
\<close>

theorem find_min_range_mode_not_restored:
  "find_min_range (tail_distance angle_tail) (pi / 8) rest_bone left_target =
     Some (None, rest_bone\<lparr>rotation_mode := AXIS_ANGLE, rotation_axis_angle := (2 * pi, 0, 1, 0)\<rparr>)
   \<and> rotation_mode rest_bone = QUATERNION
   \<and> rotation_mode (rest_bone\<lparr>rotation_mode := AXIS_ANGLE, rotation_axis_angle := (2 * pi, 0, 1, 0)\<rparr>)
       = AXIS_ANGLE"
  by (simp add: find_min_range_angle_tail_rest) (simp add: rest_bone_def)









section \<open>Pole target disambiguation\<close>






end
